theory Spec2Isabelle
  imports Complex_Main "HOL-Library.AList" "HOL-Library.Sublist"
begin

section \<open>Shared data: JavaScript objects, rows and values\<close>

text \<open>
  A JavaScript object with string keys is stored as an association list in the order in
  which the keys were created. Assigning to a key that exists keeps the key's position,
  assigning to a new key appends it; that is \<^const>\<open>AList.update\<close>.
\<close>

type_synonym 'v obj = "(string \<times> 'v) list"

text \<open>
  The language enumerates the keys of an object (\<^verbatim>\<open>Object.keys\<close>, \<^verbatim>\<open>Object.entries\<close>,
  \<^verbatim>\<open>Object.assign\<close>) with the array indices first, in ascending numeric order, and then
  the other keys in the order of their creation. An array index is the canonical decimal
  text of an integer from 0 to \<open>2^32 - 2\<close>: digits only, and no leading zero but for \<open>0\<close>
  itself.
\<close>

definition is_digit :: "char \<Rightarrow> bool" where
  "is_digit c = (c \<in> set ''0123456789'')"

definition digit_value :: "char \<Rightarrow> nat" where
  "digit_value c = length (takeWhile (\<lambda>d. d \<noteq> c) ''0123456789'')"

definition index_value :: "string \<Rightarrow> nat" where
  "index_value k = foldl (\<lambda>n c. 10 * n + digit_value c) 0 k"

definition is_array_index :: "string \<Rightarrow> bool" where
  "is_array_index k =
     (case k of
        [] \<Rightarrow> False
      | c # cs \<Rightarrow>
          list_all is_digit k \<and> (if c = CHR ''0'' then cs = [] else True)
          \<and> index_value k < 4294967295)"

definition object_entries :: "'v obj \<Rightarrow> (string \<times> 'v) list" where
  "object_entries obj =
     sort_key (\<lambda>e. index_value (fst e)) (filter (\<lambda>e. is_array_index (fst e)) obj)
     @ filter (\<lambda>e. \<not> is_array_index (fst e)) obj"

text \<open>\<^verbatim>\<open>Object.assign(target, source)\<close>: every entry of the source is assigned to the target,
  in the order in which the source's keys are enumerated.\<close>

definition object_assign :: "'v obj \<Rightarrow> 'v obj \<Rightarrow> 'v obj" where
  "object_assign target source =
     fold (\<lambda>(k, v). AList.update k v) (object_entries source) target"

text \<open>A read \<^verbatim>\<open>xs[i]\<close> of a JavaScript array: \<^verbatim>\<open>undefined\<close> (here \<open>None\<close>) out of range.\<close>

definition nth_opt :: "'a list \<Rightarrow> nat \<Rightarrow> 'a option" where
  "nth_opt xs i = (if i < length xs then Some (xs ! i) else None)"

text \<open>The template literal \<^verbatim>\<open>`${k}`\<close> of a non-negative integer: its decimal digits.\<close>

definition digit_char :: "nat \<Rightarrow> char" where
  "digit_char d = ''0123456789'' ! d"

function show_nat :: "nat \<Rightarrow> string" where
  "show_nat n = (if n < 10 then [digit_char n] else show_nat (n div 10) @ [digit_char (n mod 10)])"
  by pat_completeness auto
termination
  by (relation "measure (\<lambda>n. n)") auto

declare show_nat.simps [simp del]

text \<open>The value of a feature of an input row: a string (categorical), a number, or null.\<close>

datatype jsval = JNull | JStr string | JNum real

text \<open>\<^verbatim>\<open>IndexedInput\<close>: an identified row of the dataset. A key missing from \<open>data\<close>
  reads as \<^verbatim>\<open>undefined\<close>, here \<open>None\<close>.\<close>

record IndexedInput =
  id' :: string
  data :: "string \<Rightarrow> jsval option"

section \<open>The classification module\<close>

subsection \<open>Types\<close>

definition SPARSE_MODE_THRESHOLD :: real where
  "SPARSE_MODE_THRESHOLD = 0.01"

text \<open>\<^verbatim>\<open>DisplayInfo\<close>. Numbers are modelled as reals. \<open>value'\<close> is \<open>None\<close> where the
  source holds \<^verbatim>\<open>undefined\<close> (a score vector shorter than the label list); \<open>color\<close> is
  \<open>None\<close> where the property is absent or \<^verbatim>\<open>undefined\<close>.\<close>

record DisplayInfo =
  value' :: "real option"
  isTruth :: bool
  isPredicted :: bool
  color :: "string option"

type_synonym LabelRows = "DisplayInfo list obj"

type_synonym LabeledPredictions = "LabelRows obj"

text \<open>A field of a model's output spec. Of a \<^verbatim>\<open>MulticlassPreds\<close> field the module reads
  \<open>parent\<close> and \<open>vocab\<close>, either of which may be undeclared.\<close>

datatype FieldSpec =
  MulticlassPreds (parent: "string option") (vocab: "string list option")
  | OtherField

datatype CalculatedColumnType = PREDICTED_CLASS | CORRECT

text \<open>What the data service stores in a column for a row: the declared types of the three
  columns read here are a score vector, a class label, a ground-truth label, each or null.\<close>

datatype colval = CNull | CStr string | CScores "real list"

fun scoresOf :: "colval \<Rightarrow> real list option" where
  "scoresOf (CScores xs) = Some xs"
| "scoresOf _ = None"

fun stringOf :: "colval \<Rightarrow> string option" where
  "stringOf (CStr s) = Some s"
| "stringOf _ = None"

text \<open>The active colour option: its name and the range of its scale
  (\<^verbatim>\<open>colorOption.scale.range()\<close>). The range is read only when the option is one of the
  head's colourable columns (predicted class, correctness, parent feature), whose scales
  are ordinal and have a range.\<close>

record ColorOption =
  name :: string
  scale_range :: "string list"

text \<open>
  The collaborators the module reads: the application state (\<open>compareExamplesEnabled\<close>,
  \<open>currentModels\<close>, \<open>getModelSpec(model).output\<close>), the colour service, the two selection
  services, and the data service (\<open>getVal\<close>, \<open>getColumnName\<close>). They are not part of the
  module and are taken as they are given.
\<close>

record Services =
  compareExamplesEnabled :: bool
  currentModels :: "string list"
  getModelSpecOutput :: "string \<Rightarrow> FieldSpec obj"
  selectedColorOption :: ColorOption
  pinnedPrimarySelectedInputData :: "IndexedInput option"
  primarySelectedInputData :: "IndexedInput option"
  getVal :: "string \<Rightarrow> string \<Rightarrow> colval"
  getColumnName :: "string \<Rightarrow> string \<Rightarrow> CalculatedColumnType option \<Rightarrow> string"

text \<open>The module's own observable state.\<close>

record ClassificationModule =
  sparseMode :: bool
  labeledPredictions :: LabeledPredictions

datatype error = TypeError

text \<open>One element of \<^verbatim>\<open>inputData\<close>.\<close>

record InputDatum =
  predScores :: "real list option"
  predClass :: "string option"
  truth :: "string option"

subsection \<open>parseResult\<close>

text \<open>\<^verbatim>\<open>inputs.map(i => ({predScores: ..., predClass: ..., truth: ...}))\<close>\<close>

definition inputDataOf ::
  "Services \<Rightarrow> string \<Rightarrow> string \<Rightarrow> string option \<Rightarrow> IndexedInput list \<Rightarrow> InputDatum list" where
  "inputDataOf svc topLevelKey predClassKey parent' inputs =
     map (\<lambda>i. \<lparr>predScores = scoresOf (getVal svc (id' i) topLevelKey),
               predClass = stringOf (getVal svc (id' i) predClassKey),
               truth = (case parent' of None \<Rightarrow> None
                        | Some p \<Rightarrow> stringOf (getVal svc (id' i) p))\<rparr>) inputs"

text \<open>
  \<^verbatim>\<open>vocab || Array.from({length: inputData[0].predScores.length}, (v, k) => `${k}`)\<close>.
  Without a vocabulary the length of the first row's score vector is read: that raises a
  \<^verbatim>\<open>TypeError\<close> when there is no first row, and when its score vector is null.
\<close>

definition labelsOf :: "string list option \<Rightarrow> InputDatum list \<Rightarrow> error + string list" where
  "labelsOf vocab' inputData =
     (case vocab' of
        Some v \<Rightarrow> Inr v
      | None \<Rightarrow>
          (case inputData of
             [] \<Rightarrow> Inl TypeError
           | d # _ \<Rightarrow>
               (case predScores d of
                  None \<Rightarrow> Inl TypeError
                | Some scores \<Rightarrow> Inr (map show_nat [0..<length scores]))))"

text \<open>\<^verbatim>\<open>value >= SPARSE_MODE_THRESHOLD\<close>; the comparison is false on \<^verbatim>\<open>undefined\<close>.\<close>

definition atLeastThreshold :: "real option \<Rightarrow> bool" where
  "atLeastThreshold v = (case v of None \<Rightarrow> False | Some x \<Rightarrow> SPARSE_MODE_THRESHOLD \<le> x)"

text \<open>The body of the loop over \<^verbatim>\<open>inputData\<close>: what one input row pushes on
  \<^verbatim>\<open>rowPreds\<close> for the label \<open>label\<close> at index \<open>i\<close>.\<close>

definition rowPred ::
  "bool \<Rightarrow> string \<Rightarrow> string \<Rightarrow> bool \<Rightarrow> string list \<Rightarrow> string \<Rightarrow> nat \<Rightarrow> InputDatum
     \<Rightarrow> DisplayInfo list" where
  "rowPred sparse colorName predCorrectKey applyColor colorRange label i d =
     (case predScores d of
        None \<Rightarrow>
          (if sparse then []
           else [\<lparr>value' = Some 0, isTruth = False, isPredicted = False, color = None\<rparr>])
      | Some scores \<Rightarrow>
          (let v = nth_opt scores i;
               isPredicted' = (predClass d = Some label);
               isTruth' = (truth d = Some label);
               pushed = [\<lparr>value' = v, isTruth = isTruth', isPredicted = isPredicted',
                          color = (if applyColor
                                   then (if colorName = predCorrectKey
                                         then nth_opt colorRange (if isTruth' then 1 else 0)
                                         else nth_opt colorRange i)
                                   else None)\<rparr>]
           in if sparse then (if atLeastThreshold v then pushed else []) else pushed))"

definition rowPreds ::
  "bool \<Rightarrow> string \<Rightarrow> string \<Rightarrow> bool \<Rightarrow> string list \<Rightarrow> InputDatum list \<Rightarrow> string \<Rightarrow> nat
     \<Rightarrow> DisplayInfo list" where
  "rowPreds sparse colorName predCorrectKey applyColor colorRange inputData label i =
     concat (map (rowPred sparse colorName predCorrectKey applyColor colorRange label i) inputData)"

text \<open>\<^verbatim>\<open>labels.forEach((label, i) => ...)\<close>: a label gets an entry only when its
  \<^verbatim>\<open>rowPreds\<close> is not empty. The table is stored in the order in which the labels get
  their entries; a reader of the table enumerates it with \<open>object_entries\<close>.\<close>

fun labelsLoop ::
  "(string \<Rightarrow> nat \<Rightarrow> DisplayInfo list) \<Rightarrow> string list \<Rightarrow> nat \<Rightarrow> LabelRows \<Rightarrow> LabelRows" where
  "labelsLoop f [] i rows = rows"
| "labelsLoop f (label # labels) i rows =
     labelsLoop f labels (Suc i)
       (if f label i = [] then rows else AList.update label (f label i) rows)"

text \<open>The body of the loop over the prediction heads, for the head \<open>predKey\<close>: the key
  of the head's table and the table.\<close>

definition parseHead ::
  "Services \<Rightarrow> bool \<Rightarrow> string \<Rightarrow> IndexedInput list \<Rightarrow> string \<Rightarrow> string option
     \<Rightarrow> string list option \<Rightarrow> error + (string \<times> LabelRows)" where
  "parseHead svc sparse model inputs predKey parent' vocab' =
     (let colorOption = selectedColorOption svc;
          topLevelKey = getColumnName svc model predKey None;
          predClassKey = getColumnName svc model predKey (Some PREDICTED_CLASS);
          predCorrectKey = getColumnName svc model predKey (Some CORRECT);
          inputData = inputDataOf svc topLevelKey predClassKey parent' inputs
      in case labelsOf vocab' inputData of
           Inl e \<Rightarrow> Inl e
         | Inr labels \<Rightarrow>
             (let colorableKeys = [Some predClassKey, Some predCorrectKey, parent'];
                  applyColor = (Some (name colorOption) \<in> set colorableKeys);
                  colorRange = (if applyColor then scale_range colorOption else [])
              in Inr (topLevelKey,
                      labelsLoop (rowPreds sparse (name colorOption) predCorrectKey applyColor
                                    colorRange inputData) labels 0 [])))"

text \<open>The loop over \<^verbatim>\<open>findSpecKeys(output, MulticlassPreds)\<close>, the keys of the output spec
  whose field is a \<^verbatim>\<open>MulticlassPreds\<close>, in the spec's order. An exception leaves the loop.\<close>

fun headsLoop ::
  "Services \<Rightarrow> bool \<Rightarrow> string \<Rightarrow> IndexedInput list \<Rightarrow> FieldSpec obj \<Rightarrow> LabeledPredictions
     \<Rightarrow> error + LabeledPredictions" where
  "headsLoop svc sparse model inputs [] acc = Inr acc"
| "headsLoop svc sparse model inputs ((predKey, OtherField) # output) acc =
     headsLoop svc sparse model inputs output acc"
| "headsLoop svc sparse model inputs ((predKey, MulticlassPreds parent' vocab') # output) acc =
     (case parseHead svc sparse model inputs predKey parent' vocab' of
        Inl e \<Rightarrow> Inl e
      | Inr (topLevelKey, rows) \<Rightarrow>
          headsLoop svc sparse model inputs output (AList.update topLevelKey rows acc))"

definition parseResult ::
  "Services \<Rightarrow> bool \<Rightarrow> string \<Rightarrow> IndexedInput list \<Rightarrow> error + LabeledPredictions" where
  "parseResult svc sparse model inputs =
     headsLoop svc sparse model inputs (getModelSpecOutput svc model) []"

subsection \<open>updateSelection\<close>

text \<open>The loop over the current models. The module's table is updated model by model, so
  an exception leaves the assignments of the models before it in place.\<close>

fun modelsLoop ::
  "Services \<Rightarrow> bool \<Rightarrow> IndexedInput list \<Rightarrow> string list \<Rightarrow> LabeledPredictions
     \<Rightarrow> LabeledPredictions \<times> error option" where
  "modelsLoop svc sparse inputs [] lp = (lp, None)"
| "modelsLoop svc sparse inputs (model # models) lp =
     (case parseResult svc sparse model inputs of
        Inl e \<Rightarrow> (lp, Some e)
      | Inr r \<Rightarrow> modelsLoop svc sparse inputs models (object_assign lp r))"

text \<open>The rows \<^verbatim>\<open>data\<close> of an update: the pinned datapoint first, in comparison mode, then
  the selected datapoint.\<close>

definition selectionData :: "Services \<Rightarrow> IndexedInput list" where
  "selectionData svc =
     (if compareExamplesEnabled svc
      then (case pinnedPrimarySelectedInputData svc of None \<Rightarrow> [] | Some p \<Rightarrow> [p])
      else [])
     @ (case primarySelectedInputData svc of None \<Rightarrow> [] | Some s \<Rightarrow> [s])"

text \<open>\<open>updateSelection\<close> returns the module after the update, and the exception that ended
  the update, if any.\<close>

definition updateSelection ::
  "Services \<Rightarrow> ClassificationModule \<Rightarrow> ClassificationModule \<times> error option" where
  "updateSelection svc m =
     (if selectionData svc = [] then (m\<lparr>labeledPredictions := []\<rparr>, None)
      else (case modelsLoop svc (sparseMode m) (selectionData svc) (currentModels svc)
                   (labeledPredictions m) of
              (lp, e) \<Rightarrow> (m\<lparr>labeledPredictions := lp\<rparr>, e)))"

subsection \<open>Rendering\<close>

text \<open>\<^verbatim>\<open>activeLabeledPreds\<close> of \<open>renderImpl\<close>: the entries of the stored mapping, as
  \<^verbatim>\<open>Object.entries\<close> lists them, whose key starts with the name of a current model.\<close>

definition activeLabeledPreds :: "Services \<Rightarrow> ClassificationModule \<Rightarrow> LabeledPredictions" where
  "activeLabeledPreds svc m =
     filter (\<lambda>(fieldName, labelRow). list_ex (\<lambda>model. prefix model fieldName) (currentModels svc))
       (object_entries (labeledPredictions m))"

text \<open>An entry of a table row: the class label, a score bar (\<open>renderDisplayInfo\<close>: the
  prediction and whether a ground truth exists), or a number; the number is \<open>None\<close> where
  the source computes \<^verbatim>\<open>NaN\<close> from an \<^verbatim>\<open>undefined\<close> score.\<close>

datatype TableEntry = LabelEntry string | ScoreBar DisplayInfo bool | NumberEntry "real option"

definition renderDisplayInfo :: "bool \<Rightarrow> DisplayInfo \<Rightarrow> TableEntry" where
  "renderDisplayInfo hasGroundTruth pred = ScoreBar pred hasGroundTruth"

text \<open>\<^verbatim>\<open>Math.abs(pinned - selected)\<close>. Numbers are reals here: the rounding of the
  difference to a double is not modelled. At the values 0.3 and 0.8 the double result is
  0.5, as the real one; elsewhere the two can differ in the last digit.\<close>

definition absDelta :: "real option \<Rightarrow> real option \<Rightarrow> real option" where
  "absDelta pinned selected =
     (case pinned of None \<Rightarrow> None
      | Some p \<Rightarrow> (case selected of None \<Rightarrow> None | Some s \<Rightarrow> Some \<bar>p - s\<bar>))"

definition tableRow :: "bool \<Rightarrow> string \<times> DisplayInfo list \<Rightarrow> TableEntry list" where
  "tableRow hasGroundTruth entry =
     (case entry of (label, values) \<Rightarrow>
        LabelEntry label # map (renderDisplayInfo hasGroundTruth) values
        @ (if length values = 2
           then [NumberEntry (absDelta (value' (values ! 0)) (value' (values ! 1)))]
           else []))"

datatype ColumnName = ClassHeader | TextHeader string

text \<open>\<open>renderFeatureTable\<close>: the column names and the rows handed to the data table, one
  row for each entry of \<^verbatim>\<open>Object.entries(labelRow)\<close>. Reading
  \<^verbatim>\<open>rows[0].length\<close> raises a \<^verbatim>\<open>TypeError\<close> when there is no row. (The header of the
  fourth column starts with the Greek capital delta, spelled out here.)\<close>

definition renderFeatureTable ::
  "Services \<Rightarrow> LabelRows \<Rightarrow> bool \<Rightarrow> error + (ColumnName list \<times> TableEntry list list)" where
  "renderFeatureTable svc labelRow hasGroundTruth =
     (let rows = map (tableRow hasGroundTruth) (object_entries labelRow)
      in case rows of
           [] \<Rightarrow> Inl TypeError
         | row0 # _ \<Rightarrow>
             Inr (if length row0 > 2
                  then [ClassHeader, TextHeader ''Score - Pinned'', TextHeader ''Score - Selected'',
                        TextHeader ''Delta(Pinned, Selected)'']
                  else if compareExamplesEnabled svc
                  then [ClassHeader, TextHeader ''Score - Pinned'']
                  else [ClassHeader, TextHeader ''Score''],
                  rows))"

section \<open>The slice module\<close>

subsection \<open>The slice service\<close>

text \<open>
  The slice service (\<^verbatim>\<open>slice_service.ts\<close>) is not among the sources; the module below
  calls it. Its state and operations follow the specification of the Slice Manager, under
  the names the module calls them by: named slices in insertion order, each with its set
  of row ids.
\<close>

type_synonym SliceService = "(string \<times> string set) list"

datatype SliceError = DuplicateNameError | UnknownSliceError | ProtectedSliceError

text \<open>Modelled from the spec: the reserved name of the starred slice, a constant of the
  absent \<^verbatim>\<open>slice_service.ts\<close>. No proof below depends on its text.\<close>

definition STARRED_SLICE_NAME :: string where
  "STARRED_SLICE_NAME = ''Starred''"

text \<open>Modelled from the spec: the slice service at start, absent from the sources. The
  starred slice is always present and never created.\<close>

definition initialSlices :: SliceService where
  "initialSlices = [(STARRED_SLICE_NAME, {})]"

text \<open>Modelled from the spec: the ordered slice list of the absent slice service.\<close>

definition sliceNames :: "SliceService \<Rightarrow> string list" where
  "sliceNames s = map fst s"

text \<open>Modelled from the spec: \<open>getIds\<close> of the absent slice service, a pure query; the
  module reads an unknown name as no id list (\<^verbatim>\<open>getSliceByName(sliceName) ?? []\<close>).\<close>

definition getSliceByName :: "SliceService \<Rightarrow> string \<Rightarrow> string set option" where
  "getSliceByName s sliceName' = map_of s sliceName'"

text \<open>Modelled from the spec: \<open>isMember\<close> of the absent slice service; false for an
  unknown name.\<close>

definition isInSlice :: "SliceService \<Rightarrow> string \<Rightarrow> string \<Rightarrow> bool" where
  "isInSlice s sliceName' i =
     (case getSliceByName s sliceName' of None \<Rightarrow> False | Some ids \<Rightarrow> i \<in> ids)"

text \<open>Modelled from the spec: \<open>createSlice\<close> of the absent slice service. It fails with
  \<open>DuplicateNameError\<close> if the name exists, and otherwise appends the slice to the list.\<close>

definition addNamedSlice :: "string \<Rightarrow> string set \<Rightarrow> SliceService \<Rightarrow> SliceError + SliceService" where
  "addNamedSlice sliceName' ids s =
     (if sliceName' \<in> set (sliceNames s) then Inl DuplicateNameError
      else Inr (s @ [(sliceName', ids)]))"

text \<open>Modelled from the spec: \<open>addIds\<close> of the absent slice service, set union on the
  slice's id set; \<open>UnknownSliceError\<close> if the name does not exist.\<close>

definition addIdsToSlice :: "string \<Rightarrow> string set \<Rightarrow> SliceService \<Rightarrow> SliceError + SliceService" where
  "addIdsToSlice sliceName' ids s =
     (if sliceName' \<in> set (sliceNames s)
      then Inr (map (\<lambda>(n, members). if n = sliceName' then (n, members \<union> ids) else (n, members)) s)
      else Inl UnknownSliceError)"

text \<open>Modelled from the spec: \<open>removeIds\<close> of the absent slice service, set difference on
  the slice's id set; \<open>UnknownSliceError\<close> if the name does not exist.\<close>

definition removeIdsFromSlice ::
  "string \<Rightarrow> string set \<Rightarrow> SliceService \<Rightarrow> SliceError + SliceService" where
  "removeIdsFromSlice sliceName' ids s =
     (if sliceName' \<in> set (sliceNames s)
      then Inr (map (\<lambda>(n, members). if n = sliceName' then (n, members - ids) else (n, members)) s)
      else Inl UnknownSliceError)"

text \<open>Modelled from the spec: \<open>deleteSlice\<close> of the absent slice service. It fails with
  \<open>UnknownSliceError\<close> if the slice is absent and with \<open>ProtectedSliceError\<close> on the starred
  slice, and otherwise removes the slice.\<close>

definition deleteNamedSlice :: "string \<Rightarrow> SliceService \<Rightarrow> SliceError + SliceService" where
  "deleteNamedSlice sliceName' s =
     (if sliceName' \<in> set (sliceNames s)
      then (if sliceName' = STARRED_SLICE_NAME then Inl ProtectedSliceError
            else Inr (filter (\<lambda>(n, members). n \<noteq> sliceName') s))
      else Inl UnknownSliceError)"

text \<open>The states of the slice service: what the operations make of the initial state.\<close>

inductive reachable :: "SliceService \<Rightarrow> bool" where
  reachable_initial: "reachable initialSlices"
| reachable_add: "reachable s \<Longrightarrow> addNamedSlice n ids s = Inr s' \<Longrightarrow> reachable s'"
| reachable_addIds: "reachable s \<Longrightarrow> addIdsToSlice n ids s = Inr s' \<Longrightarrow> reachable s'"
| reachable_removeIds: "reachable s \<Longrightarrow> removeIdsFromSlice n ids s = Inr s' \<Longrightarrow> reachable s'"
| reachable_delete: "reachable s \<Longrightarrow> deleteNamedSlice n s = Inr s' \<Longrightarrow> reachable s'"

text \<open>\<open>addIds\<close> followed by \<open>removeIds\<close> with the same ids; an error ends the sequence.\<close>

definition addThenRemoveIds ::
  "string \<Rightarrow> string set \<Rightarrow> SliceService \<Rightarrow> SliceError + SliceService" where
  "addThenRemoveIds sliceName' ids s =
     (case addIdsToSlice sliceName' ids s of
        Inl e \<Rightarrow> Inl e
      | Inr s' \<Rightarrow> removeIdsFromSlice sliceName' ids s')"

subsection \<open>The group service\<close>









subsection \<open>The module\<close>


text \<open>What the module reads of the application state, the selection service and the
  slice service's view of the dataset (\<open>getSliceDataByName\<close>: the rows of a slice).\<close>

record SliceModuleServices =
  currentInputDataKeys :: "string list"
  getIndexById :: "string \<Rightarrow> int"
  getSliceDataByName :: "string \<Rightarrow> IndexedInput list"
  selectedOrAllInputData :: "IndexedInput list"
  selectedIds :: "string list"




text \<open>An entry of an exported row: the dataset index of the datapoint, or the value of a
  column (\<open>None\<close> where the row has no such key).\<close>

datatype SortableTableEntry = IndexEntry int | ValueEntry "jsval option"

definition rowData :: "SliceModuleServices \<Rightarrow> IndexedInput \<Rightarrow> SortableTableEntry list" where
  "rowData svc row =
     [IndexEntry (getIndexById svc (id' row))]
     @ map (\<lambda>c. ValueEntry (data row c)) (currentInputDataKeys svc)"

definition getArrayData :: "SliceModuleServices \<Rightarrow> string \<Rightarrow> SortableTableEntry list list" where
  "getArrayData svc sliceName' = map (rowData svc) (getSliceDataByName svc sliceName')"

text \<open>The handlers of a slice row (\<open>renderSliceRow\<close>) and the icon the row shows: the
  starred slice gets the reset icon, every other slice the delete icon.\<close>

definition appendClicked ::
  "SliceModuleServices \<Rightarrow> string \<Rightarrow> SliceService \<Rightarrow> SliceError + SliceService" where
  "appendClicked svc sliceName' s = addIdsToSlice sliceName' (set (selectedIds svc)) s"

definition deleteClicked :: "string \<Rightarrow> SliceService \<Rightarrow> SliceError + SliceService" where
  "deleteClicked sliceName' s = deleteNamedSlice sliceName' s"

definition clearClicked :: "string \<Rightarrow> SliceService \<Rightarrow> SliceError + SliceService" where
  "clearClicked sliceName' s =
     (let ids = (case getSliceByName s sliceName' of None \<Rightarrow> {} | Some ids \<Rightarrow> ids)
      in removeIdsFromSlice sliceName' ids s)"

datatype RowIcon = ClearIcon | DeleteIcon

definition rowIcon :: "string \<Rightarrow> RowIcon" where
  "rowIcon sliceName' = (if sliceName' = STARRED_SLICE_NAME then ClearIcon else DeleteIcon)"

text \<open>What a click on the row's icon does.\<close>

definition iconClicked :: "string \<Rightarrow> SliceService \<Rightarrow> SliceError + SliceService" where
  "iconClicked sliceName' s =
     (case rowIcon sliceName' of
        ClearIcon \<Rightarrow> clearClicked sliceName' s
      | DeleteIcon \<Rightarrow> deleteClicked sliceName' s)"

section \<open>Example inputs\<close>

text \<open>A data service that names the column of a head \<open>model:head\<close>, and a calculated
  column \<open>model:head:class\<close> or \<open>model:head:correct\<close>.\<close>

definition columnName :: "string \<Rightarrow> string \<Rightarrow> CalculatedColumnType option \<Rightarrow> string" where
  "columnName model predKey t =
     model @ '':'' @ predKey @
       (case t of None \<Rightarrow> [] | Some PREDICTED_CLASS \<Rightarrow> '':class'' | Some CORRECT \<Rightarrow> '':correct'')"

definition exampleRow :: "string \<Rightarrow> IndexedInput" where
  "exampleRow i = \<lparr>id' = i, data = (\<lambda>k. None)\<rparr>"

text \<open>Services with the given comparison mode, current models, pinned and selected row
  ids; every model has one head \<open>probas\<close> with the given vocabulary and no parent, and the
  score column of a row holds \<open>scores i\<close> for the row id \<open>i\<close>.\<close>

definition exampleServices ::
  "bool \<Rightarrow> string list \<Rightarrow> string list option \<Rightarrow> string option \<Rightarrow> string option
     \<Rightarrow> (string \<Rightarrow> colval) \<Rightarrow> Services" where
  "exampleServices compare models vocab' pinned selected scores =
     \<lparr>compareExamplesEnabled = compare, currentModels = models,
      getModelSpecOutput = (\<lambda>model. [(''probas'', MulticlassPreds None vocab')]),
      selectedColorOption = \<lparr>name = ''none'', scale_range = []\<rparr>,
      pinnedPrimarySelectedInputData = map_option exampleRow pinned,
      primarySelectedInputData = map_option exampleRow selected,
      getVal = (\<lambda>i k. if k \<in> set (map (\<lambda>m. m @ '':probas'') models) then scores i else CNull),
      getColumnName = columnName\<rparr>"

definition scoreRow :: "real \<Rightarrow> DisplayInfo" where
  "scoreRow x = \<lparr>value' = Some x, isTruth = False, isPredicted = False, color = None\<rparr>"


definition exampleRowA :: IndexedInput where
  "exampleRowA = \<lparr>id' = ''a'', data = (\<lambda>k. if k = ''score'' then Some (JNum 2) else None)\<rparr>"

definition exampleRowB :: IndexedInput where
  "exampleRowB = \<lparr>id' = ''b'', data = (\<lambda>k. if k = ''score'' then Some (JNum 7) else None)\<rparr>"

definition exampleRowC :: IndexedInput where
  "exampleRowC = \<lparr>id' = ''c'', data = (\<lambda>k. None)\<rparr>"

definition exampleRows :: "IndexedInput list" where
  "exampleRows = [exampleRowB, exampleRowA, exampleRowC]"

definition exampleSliceServices :: SliceModuleServices where
  "exampleSliceServices =
     \<lparr>currentInputDataKeys = [''score'', ''label''],
      getIndexById = (\<lambda>i. if i = ''a'' then 0 else if i = ''b'' then 1 else if i = ''c'' then 2 else -1),
      getSliceDataByName = (\<lambda>n. if n = ''low'' then [exampleRowA] else []),
      selectedOrAllInputData = exampleRows,
      selectedIds = []\<rparr>"


section \<open>Properties of the classification module\<close>

subsection \<open>Objects\<close>

lemma object_entries_Nil [simp]: "object_entries [] = []"
  by (simp add: object_entries_def)

lemma set_object_entries [simp]: "set (object_entries obj) = set obj"
  by (auto simp: object_entries_def)











subsection \<open>Rows of one label\<close>

lemmas example_defs = exampleServices_def exampleRow_def columnName_def scoreRow_def

lemmas parse_defs = parseResult_def parseHead_def inputDataOf_def labelsOf_def
  rowPreds_def rowPred_def nth_opt_def atLeastThreshold_def SPARSE_MODE_THRESHOLD_def

lemmas enum_defs = object_entries_def is_array_index_def is_digit_def index_value_def
  digit_value_def

lemmas update_defs = updateSelection_def selectionData_def object_assign_def enum_defs










section \<open>Properties of the slice module\<close>

lemma map_of_map_ids:
  "map_of (map (\<lambda>(n, members). if n = k then (n, g members) else (n, members)) s) k' =
     (if k' = k then map_option g (map_of s k') else map_of s k')"
  by (induction s) auto

lemma names_map_ids:
  "sliceNames (map (\<lambda>(n, members). if n = k then (n, g members) else (n, members)) s) = sliceNames s"
  unfolding sliceNames_def by (induction s) auto

lemma addIdsToSlice_known:
  assumes "k \<in> set (sliceNames s)"
  shows "\<exists>s'. addIdsToSlice k ids s = Inr s' \<and> sliceNames s' = sliceNames s
           \<and> (\<forall>k'. getSliceByName s' k' =
                 (if k' = k then map_option (\<lambda>members. members \<union> ids) (getSliceByName s k')
                  else getSliceByName s k'))"
  using assms
  by (simp add: addIdsToSlice_def getSliceByName_def map_of_map_ids names_map_ids)

lemma removeIdsFromSlice_known:
  assumes "k \<in> set (sliceNames s)"
  shows "\<exists>s'. removeIdsFromSlice k ids s = Inr s' \<and> sliceNames s' = sliceNames s
           \<and> (\<forall>k'. getSliceByName s' k' =
                 (if k' = k then map_option (\<lambda>members. members - ids) (getSliceByName s k')
                  else getSliceByName s k'))"
  using assms
  by (simp add: removeIdsFromSlice_def getSliceByName_def map_of_map_ids names_map_ids)

lemma known_has_ids: "k \<in> set (sliceNames s) \<Longrightarrow> \<exists>members. getSliceByName s k = Some members"
  by (simp add: sliceNames_def getSliceByName_def) (metis domIff dom_map_of_conv_image_fst not_None_eq set_map)

lemma reachable_starred:
  "reachable s \<Longrightarrow> STARRED_SLICE_NAME \<in> set (sliceNames s)"
proof (induction rule: reachable.induct)
  case reachable_initial
  then show ?case by (simp add: initialSlices_def sliceNames_def)
next
  case (reachable_add s n ids s')
  then show ?case by (auto simp: addNamedSlice_def sliceNames_def split: if_splits)
next
  case (reachable_addIds s n ids s')
  then show ?case
    by (auto simp: addIdsToSlice_def names_map_ids split: if_splits)
next
  case (reachable_removeIds s n ids s')
  then show ?case
    by (auto simp: removeIdsFromSlice_def names_map_ids split: if_splits)
next
  case (reachable_delete s n s')
  then show ?case
    by (auto simp: deleteNamedSlice_def sliceNames_def split: if_splits)
qed














section \<open>The claims about the classification module\<close>

text \<open>
  Claim C1: for every input, building the per-class table raises no error, also when the
  head declares no vocabulary and the first row's score vector is null.

  With a declared vocabulary a head is always built. Without one the head raises a
  \<^verbatim>\<open>TypeError\<close> exactly when there is no input row or the first row's score vector is
  null: the length of that vector is read before the loop that guards against null score
  vectors. For a selected row without scores and a head without vocabulary, \<open>parseResult\<close>
  raises and \<open>updateSelection\<close> ends with the exception.
\<close>

theorem parseHead_raises_without_vocab:
  "(\<exists>rows. parseHead svc sparse model inputs predKey parent' (Some v) =
             Inr (getColumnName svc model predKey None, rows))
   \<and> ((parseHead svc sparse model inputs predKey parent' None = Inl TypeError) =
        (inputs = [] \<or>
         scoresOf (getVal svc (id' (hd inputs)) (getColumnName svc model predKey None)) = None))
   \<and> parseResult (exampleServices False [''m''] None None (Some ''r1'') (\<lambda>i. CNull)) sparse ''m''
        [exampleRow ''r1''] = Inl TypeError
   \<and> updateSelection (exampleServices False [''m''] None None (Some ''r1'') (\<lambda>i. CNull))
        \<lparr>sparseMode = sparse, labeledPredictions = []\<rparr> =
      (\<lparr>sparseMode = sparse, labeledPredictions = []\<rparr>, Some TypeError)"
proof -
  have declared: "\<exists>rows. parseHead svc sparse model inputs predKey parent' (Some v) =
             Inr (getColumnName svc model predKey None, rows)"
    by (simp add: parseHead_def labelsOf_def Let_def)
  have undeclared: "(parseHead svc sparse model inputs predKey parent' None = Inl TypeError) =
        (inputs = [] \<or>
         scoresOf (getVal svc (id' (hd inputs)) (getColumnName svc model predKey None)) = None)"
    by (cases inputs)
      (simp_all add: parseHead_def labelsOf_def inputDataOf_def Let_def split: option.splits)
  have raised: "parseResult (exampleServices False [''m''] None None (Some ''r1'') (\<lambda>i. CNull))
      sparse ''m'' [exampleRow ''r1''] = Inl TypeError"
    by (simp add: example_defs parseResult_def parseHead_def labelsOf_def inputDataOf_def)
  have "updateSelection (exampleServices False [''m''] None None (Some ''r1'') (\<lambda>i. CNull))
        \<lparr>sparseMode = sparse, labeledPredictions = []\<rparr> =
      (\<lparr>sparseMode = sparse, labeledPredictions = []\<rparr>, Some TypeError)"
    by (simp add: example_defs update_defs parseResult_def parseHead_def labelsOf_def
        inputDataOf_def)
  with declared undeclared raised show ?thesis by (intro conjI)
qed








text \<open>
  Claim C6: when both a pinned and a selected row are present, the output carries, per
  label, the delta \<open>abs(pinnedValue - selectedValue)\<close>; with the scores 0.3 and 0.8 for
  the label \<open>x\<close> the delta is 0.5.

  With sparse mode off the example of the claim holds: the table has the four columns and
  the row of \<open>x\<close> ends with 0.5. The delta is added only to an entry of exactly two values,
  and in sparse mode a row whose score is below the threshold pushes no value. With sparse
  mode on, a vocabulary of eleven labels, a pinned row with the scores 0.0078125 for \<open>x\<close>
  and 0.9921875 for \<open>a\<close>, and a selected row with the scores 0.75 for \<open>x\<close> and 0.25 for
  \<open>a\<close>, both rows are present, yet the row of \<open>x\<close> holds the selected row's 0.75 alone, with
  no delta, and since it is the first row the table gets the two columns \<open>Class\<close> and
  \<open>Score - Pinned\<close>: the selected row's score stands under the pinned column, and the
  row of \<open>a\<close>, which has both scores and the delta, has no header for them.
\<close>

theorem delta_missing_in_sparse_mode:
  "selectionData (exampleServices True [''m''] (Some [''x'']) (Some ''p'') (Some ''s'')
        (\<lambda>i. if i = ''p'' then CScores [0.3] else CScores [0.8]))
     = [exampleRow ''p'', exampleRow ''s'']
   \<and> updateSelection
       (exampleServices True [''m''] (Some [''x'']) (Some ''p'') (Some ''s'')
          (\<lambda>i. if i = ''p'' then CScores [0.3] else CScores [0.8]))
       \<lparr>sparseMode = False, labeledPredictions = []\<rparr> =
     (\<lparr>sparseMode = False,
        labeledPredictions = [(''m:probas'', [(''x'', [scoreRow 0.3, scoreRow 0.8])])]\<rparr>, None)
   \<and> renderFeatureTable
       (exampleServices True [''m''] (Some [''x'']) (Some ''p'') (Some ''s'')
          (\<lambda>i. if i = ''p'' then CScores [0.3] else CScores [0.8]))
       [(''x'', [scoreRow 0.3, scoreRow 0.8])] False =
     Inr ([ClassHeader, TextHeader ''Score - Pinned'', TextHeader ''Score - Selected'',
           TextHeader ''Delta(Pinned, Selected)''],
          [[LabelEntry ''x'', ScoreBar (scoreRow 0.3) False, ScoreBar (scoreRow 0.8) False,
            NumberEntry (Some 0.5)]])
   \<and> selectionData (exampleServices True [''m'']
        (Some [''x'', ''a'', ''b'', ''c'', ''d'', ''e'', ''f'', ''g'', ''h'', ''i'', ''j''])
        (Some ''p'') (Some ''s'')
        (\<lambda>i. if i = ''p'' then CScores [0.0078125, 0.9921875, 0, 0, 0, 0, 0, 0, 0, 0, 0]
             else CScores [0.75, 0.25, 0, 0, 0, 0, 0, 0, 0, 0, 0]))
     = [exampleRow ''p'', exampleRow ''s'']
   \<and> updateSelection
       (exampleServices True [''m'']
          (Some [''x'', ''a'', ''b'', ''c'', ''d'', ''e'', ''f'', ''g'', ''h'', ''i'', ''j''])
          (Some ''p'') (Some ''s'')
          (\<lambda>i. if i = ''p'' then CScores [0.0078125, 0.9921875, 0, 0, 0, 0, 0, 0, 0, 0, 0]
               else CScores [0.75, 0.25, 0, 0, 0, 0, 0, 0, 0, 0, 0]))
       \<lparr>sparseMode = True, labeledPredictions = []\<rparr> =
     (\<lparr>sparseMode = True,
        labeledPredictions =
          [(''m:probas'', [(''x'', [scoreRow 0.75]), (''a'', [scoreRow 0.9921875, scoreRow 0.25])])]\<rparr>,
      None)
   \<and> renderFeatureTable
       (exampleServices True [''m'']
          (Some [''x'', ''a'', ''b'', ''c'', ''d'', ''e'', ''f'', ''g'', ''h'', ''i'', ''j''])
          (Some ''p'') (Some ''s'')
          (\<lambda>i. if i = ''p'' then CScores [0.0078125, 0.9921875, 0, 0, 0, 0, 0, 0, 0, 0, 0]
               else CScores [0.75, 0.25, 0, 0, 0, 0, 0, 0, 0, 0, 0]))
       [(''x'', [scoreRow 0.75]), (''a'', [scoreRow 0.9921875, scoreRow 0.25])] False =
     Inr ([ClassHeader, TextHeader ''Score - Pinned''],
          [[LabelEntry ''x'', ScoreBar (scoreRow 0.75) False],
           [LabelEntry ''a'', ScoreBar (scoreRow 0.9921875) False, ScoreBar (scoreRow 0.25) False,
            NumberEntry (Some 0.7421875)]])"
  by (simp add: example_defs parse_defs update_defs renderFeatureTable_def tableRow_def
      renderDisplayInfo_def absDelta_def)

text \<open>
  Claim C10: if an update fires with no pinned datapoint contribution (comparison mode off
  or no pinned row) and no selected datapoint, \<open>updateSelection\<close> sets the labeled
  predictions to the empty table and returns; the module then displays no per-class rows.
\<close>

theorem updateSelection_no_rows:
  assumes "\<not> compareExamplesEnabled svc \<or> pinnedPrimarySelectedInputData svc = None"
    and "primarySelectedInputData svc = None"
  shows "updateSelection svc m = (m\<lparr>labeledPredictions := []\<rparr>, None)
       \<and> activeLabeledPreds svc (fst (updateSelection svc m)) = []"
  using assms by (auto simp: updateSelection_def selectionData_def activeLabeledPreds_def)

text \<open>The theorem at a module that holds a table from an earlier update, in comparison
  mode with no pinned and no selected row.\<close>

theorem updateSelection_no_rows_witness:
  "pinnedPrimarySelectedInputData (exampleServices True [''m''] (Some [''x'']) None None
       (\<lambda>i. CScores [0.8])) = None
   \<and> primarySelectedInputData (exampleServices True [''m''] (Some [''x'']) None None
       (\<lambda>i. CScores [0.8])) = None
   \<and> updateSelection (exampleServices True [''m''] (Some [''x'']) None None (\<lambda>i. CScores [0.8]))
       \<lparr>sparseMode = False, labeledPredictions = [(''m:probas'', [(''x'', [scoreRow 0.8])])]\<rparr> =
     (\<lparr>sparseMode = False, labeledPredictions = []\<rparr>, None)"
proof -
  let ?S = "exampleServices True [''m''] (Some [''x'']) None None (\<lambda>i. CScores [0.8])"
  let ?M = "\<lparr>sparseMode = False, labeledPredictions = [(''m:probas'', [(''x'', [scoreRow 0.8])])]\<rparr>"
  have p: "pinnedPrimarySelectedInputData ?S = None" and s: "primarySelectedInputData ?S = None"
    by (simp_all add: example_defs)
  from p have p': "\<not> compareExamplesEnabled ?S \<or> pinnedPrimarySelectedInputData ?S = None" ..
  from updateSelection_no_rows [OF p' s, of ?M]
  have "updateSelection ?S ?M = (?M\<lparr>labeledPredictions := []\<rparr>, None)" ..
  then have "updateSelection ?S ?M = (\<lparr>sparseMode = False, labeledPredictions = []\<rparr>, None)"
    by simp
  with p s show ?thesis by (intro conjI)
qed

section \<open>The claims about the slice module\<close>

text \<open>
  Claim C3, as amended: for an existing slice and an id set \<open>X\<close>, \<open>addIds\<close> with \<open>X\<close>
  followed by \<open>removeIds\<close> with \<open>X\<close> succeeds and leaves the slice with its original ids
  minus \<open>X\<close>; the names and the other slices are unchanged. The original membership is
  restored exactly when \<open>X\<close> shares no id with it.
\<close>

theorem addThenRemoveIds_membership:
  assumes "k \<in> set (sliceNames s)"
  shows "\<exists>s' members. addThenRemoveIds k ids s = Inr s' \<and> getSliceByName s k = Some members
           \<and> getSliceByName s' k = Some (members - ids)
           \<and> sliceNames s' = sliceNames s
           \<and> (\<forall>k'. k' \<noteq> k \<longrightarrow> getSliceByName s' k' = getSliceByName s k')
           \<and> ((getSliceByName s' k = getSliceByName s k) = (members \<inter> ids = {}))"
proof -
  obtain members where m: "getSliceByName s k = Some members"
    using known_has_ids [OF assms] by blast
  obtain s1 where s1: "addIdsToSlice k ids s = Inr s1" "sliceNames s1 = sliceNames s"
    "\<And>k'. getSliceByName s1 k' =
       (if k' = k then map_option (\<lambda>members. members \<union> ids) (getSliceByName s k')
        else getSliceByName s k')"
    using addIdsToSlice_known [OF assms, of ids] by blast
  have "k \<in> set (sliceNames s1)" using assms s1(2) by simp
  from removeIdsFromSlice_known [OF this, of ids]
  obtain s2 where s2: "removeIdsFromSlice k ids s1 = Inr s2" "sliceNames s2 = sliceNames s1"
    "\<And>k'. getSliceByName s2 k' =
       (if k' = k then map_option (\<lambda>members. members - ids) (getSliceByName s1 k')
        else getSliceByName s1 k')"
    by blast
  have run: "addThenRemoveIds k ids s = Inr s2"
    by (simp add: addThenRemoveIds_def s1(1) s2(1))
  have after: "getSliceByName s2 k = Some (members - ids)"
    by (simp add: s2(3) s1(3) m) blast
  have others: "\<forall>k'. k' \<noteq> k \<longrightarrow> getSliceByName s2 k' = getSliceByName s k'"
    by (simp add: s2(3) s1(3))
  have "(getSliceByName s2 k = getSliceByName s k) = (members \<inter> ids = {})"
    by (simp add: after m) blast
  with run m after others s1(2) s2(2) show ?thesis by simp
qed

text \<open>The theorem at a slice \<open>s\<close> with the id \<open>a\<close>, and the id set \<open>b\<close>.\<close>

theorem addThenRemoveIds_membership_witness:
  "''s'' \<in> set (sliceNames [(STARRED_SLICE_NAME, {}), (''s'', {''a''})])
   \<and> (\<exists>s'. addThenRemoveIds ''s'' {''b''} [(STARRED_SLICE_NAME, {}), (''s'', {''a''})] = Inr s'
         \<and> getSliceByName s' ''s'' = Some {''a''}
         \<and> sliceNames s' = [STARRED_SLICE_NAME, ''s''])"
proof -
  let ?s = "[(STARRED_SLICE_NAME, {}), (''s'', {''a''})]"
  have h: "''s'' \<in> set (sliceNames ?s)"
    by (simp add: sliceNames_def)
  have before: "getSliceByName ?s ''s'' = Some {''a''}"
    by (simp add: getSliceByName_def STARRED_SLICE_NAME_def)
  from addThenRemoveIds_membership [OF h, of "{''b''}"] obtain s' members where
    run: "addThenRemoveIds ''s'' {''b''} ?s = Inr s'"
    and m: "getSliceByName ?s ''s'' = Some members"
    and after: "getSliceByName s' ''s'' = Some (members - {''b''})"
    and names: "sliceNames s' = sliceNames ?s"
    by (elim exE conjE)
  from m have "Some members = Some {''a''}"
    unfolding before by (rule sym)
  then have mem: "members = {''a''}"
    by (simp only: option.inject)
  have "{''a''} - {''b''} = {''a''}"
    by simp
  with after have after': "getSliceByName s' ''s'' = Some {''a''}"
    by (simp only: mem)
  from names have names': "sliceNames s' = [STARRED_SLICE_NAME, ''s'']"
    by (simp add: sliceNames_def)
  have all: "addThenRemoveIds ''s'' {''b''} ?s = Inr s' \<and> getSliceByName s' ''s'' = Some {''a''}
      \<and> sliceNames s' = [STARRED_SLICE_NAME, ''s'']"
    using run after' names' by (intro conjI)
  have ex: "\<exists>s'. addThenRemoveIds ''s'' {''b''} ?s = Inr s' \<and> getSliceByName s' ''s'' = Some {''a''}
      \<and> sliceNames s' = [STARRED_SLICE_NAME, ''s'']"
    by (rule exI [of _ s']) (rule all)
  show ?thesis
    using h ex by (rule conjI)
qed

text \<open>Claim C3 as stated fails: on a slice \<open>s\<close> that holds the id \<open>a\<close>, adding the id set
  \<open>a\<close> and removing it again leaves the slice empty.\<close>

theorem addThenRemoveIds_overlap:
  "addNamedSlice ''s'' {''a''} initialSlices = Inr [(STARRED_SLICE_NAME, {}), (''s'', {''a''})]
   \<and> getSliceByName [(STARRED_SLICE_NAME, {}), (''s'', {''a''})] ''s'' = Some {''a''}
   \<and> addThenRemoveIds ''s'' {''a''} [(STARRED_SLICE_NAME, {}), (''s'', {''a''})] =
       Inr [(STARRED_SLICE_NAME, {}), (''s'', {})]
   \<and> getSliceByName [(STARRED_SLICE_NAME, {}), (''s'', {})] ''s'' = Some {}"
  by (simp add: addNamedSlice_def initialSlices_def sliceNames_def getSliceByName_def
      addThenRemoveIds_def addIdsToSlice_def removeIdsFromSlice_def STARRED_SLICE_NAME_def)

text \<open>
  Claim C7: deleting the starred slice always fails with \<open>ProtectedSliceError\<close>; clearing
  it always succeeds and yields an empty id set with the slice still in the slice list;
  the module offers the clear action, which removes the slice's full current id set, for
  the starred slice only, and the delete action for every other slice.

  "Always" is every state that the operations of the slice service make of its initial
  state.
\<close>

theorem starred_slice_protected:
  assumes "reachable s"
  shows "deleteNamedSlice STARRED_SLICE_NAME s = Inl ProtectedSliceError
       \<and> (\<exists>s'. clearClicked STARRED_SLICE_NAME s = Inr s'
             \<and> getSliceByName s' STARRED_SLICE_NAME = Some {}
             \<and> sliceNames s' = sliceNames s
             \<and> STARRED_SLICE_NAME \<in> set (sliceNames s')
             \<and> reachable s')
       \<and> (\<exists>members. getSliceByName s STARRED_SLICE_NAME = Some members
             \<and> clearClicked STARRED_SLICE_NAME s = removeIdsFromSlice STARRED_SLICE_NAME members s)
       \<and> rowIcon STARRED_SLICE_NAME = ClearIcon
       \<and> iconClicked STARRED_SLICE_NAME s = clearClicked STARRED_SLICE_NAME s
       \<and> (\<forall>n. n \<noteq> STARRED_SLICE_NAME \<longrightarrow>
             rowIcon n = DeleteIcon \<and> iconClicked n s = deleteNamedSlice n s)"
proof -
  have st: "STARRED_SLICE_NAME \<in> set (sliceNames s)"
    using assms by (rule reachable_starred)
  obtain members where m: "getSliceByName s STARRED_SLICE_NAME = Some members"
    using known_has_ids [OF st] by blast
  from removeIdsFromSlice_known [OF st, of members]
  obtain s' where s': "removeIdsFromSlice STARRED_SLICE_NAME members s = Inr s'"
    "sliceNames s' = sliceNames s"
    "getSliceByName s' STARRED_SLICE_NAME = Some {}"
    by (auto simp: m)
  have "reachable s'" using assms s'(1) by (rule reachable_removeIds)
  then have clear: "\<exists>s'. clearClicked STARRED_SLICE_NAME s = Inr s'
             \<and> getSliceByName s' STARRED_SLICE_NAME = Some {}
             \<and> sliceNames s' = sliceNames s
             \<and> STARRED_SLICE_NAME \<in> set (sliceNames s')
             \<and> reachable s'"
    using s' st by (simp add: clearClicked_def m)
  have del: "deleteNamedSlice STARRED_SLICE_NAME s = Inl ProtectedSliceError"
    using st by (simp add: deleteNamedSlice_def)
  have full: "\<exists>members. getSliceByName s STARRED_SLICE_NAME = Some members
             \<and> clearClicked STARRED_SLICE_NAME s = removeIdsFromSlice STARRED_SLICE_NAME members s"
    by (simp add: clearClicked_def m)
  show ?thesis
    using clear del full by (simp add: rowIcon_def iconClicked_def deleteClicked_def)
qed

text \<open>The theorem at the state with the id \<open>a\<close> starred and a slice \<open>s\<close>.\<close>

theorem starred_slice_protected_witness:
  "reachable [(STARRED_SLICE_NAME, {''a''}), (''s'', {''b''})]
   \<and> deleteNamedSlice STARRED_SLICE_NAME [(STARRED_SLICE_NAME, {''a''}), (''s'', {''b''})] =
       Inl ProtectedSliceError
   \<and> clearClicked STARRED_SLICE_NAME [(STARRED_SLICE_NAME, {''a''}), (''s'', {''b''})] =
       Inr [(STARRED_SLICE_NAME, {}), (''s'', {''b''})]
   \<and> rowIcon ''s'' = DeleteIcon
   \<and> iconClicked ''s'' [(STARRED_SLICE_NAME, {''a''}), (''s'', {''b''})] =
       Inr [(STARRED_SLICE_NAME, {''a''})]"
proof -
  let ?s = "[(STARRED_SLICE_NAME, {''a''}), (''s'', {''b''})]"
  have "addIdsToSlice STARRED_SLICE_NAME {''a''} initialSlices = Inr [(STARRED_SLICE_NAME, {''a''})]"
    by (simp add: addIdsToSlice_def initialSlices_def sliceNames_def)
  with reachable_initial have "reachable [(STARRED_SLICE_NAME, {''a''})]"
    by (rule reachable_addIds)
  moreover have "addNamedSlice ''s'' {''b''} [(STARRED_SLICE_NAME, {''a''})] = Inr ?s"
    by (simp add: addNamedSlice_def sliceNames_def STARRED_SLICE_NAME_def)
  ultimately have r: "reachable ?s"
    by (rule reachable_add)
  have neq: "''s'' \<noteq> STARRED_SLICE_NAME"
    by (simp add: STARRED_SLICE_NAME_def)
  from starred_slice_protected [OF r]
  have del: "deleteNamedSlice STARRED_SLICE_NAME ?s = Inl ProtectedSliceError"
    and other: "rowIcon ''s'' = DeleteIcon \<and> iconClicked ''s'' ?s = deleteNamedSlice ''s'' ?s"
    using neq by blast+
  have clear: "clearClicked STARRED_SLICE_NAME ?s = Inr [(STARRED_SLICE_NAME, {}), (''s'', {''b''})]"
    using neq by (simp add: clearClicked_def getSliceByName_def removeIdsFromSlice_def sliceNames_def)
  have "deleteNamedSlice ''s'' ?s = Inr [(STARRED_SLICE_NAME, {''a''})]"
    using neq by (auto simp: deleteNamedSlice_def sliceNames_def)
  with other have "rowIcon ''s'' = DeleteIcon"
    and "iconClicked ''s'' ?s = Inr [(STARRED_SLICE_NAME, {''a''})]"
    by simp_all
  with r del clear show ?thesis by (intro conjI)
qed




text \<open>
  Claim C9: for every slice name, \<open>getArrayData\<close> returns one row per datapoint of the
  slice; each row is the datapoint's dataset index followed by its feature values in the
  order of the current dataset's column keys.
\<close>

theorem getArrayData_rows:
  "length (getArrayData svc n) = length (getSliceDataByName svc n)
   \<and> (\<forall>i < length (getSliceDataByName svc n).
        length (getArrayData svc n ! i) = Suc (length (currentInputDataKeys svc))
        \<and> getArrayData svc n ! i ! 0 = IndexEntry (getIndexById svc (id' (getSliceDataByName svc n ! i)))
        \<and> (\<forall>j < length (currentInputDataKeys svc).
             getArrayData svc n ! i ! Suc j =
               ValueEntry (data (getSliceDataByName svc n ! i) (currentInputDataKeys svc ! j))))"
  by (simp add: getArrayData_def rowData_def)

text \<open>The theorem at the slice \<open>low\<close> of the example, which holds the row \<open>a\<close>.\<close>

theorem getArrayData_rows_witness:
  "length (getArrayData exampleSliceServices ''low'') = 1
   \<and> length (getArrayData exampleSliceServices ''low'' ! 0) = 3
   \<and> getArrayData exampleSliceServices ''low'' ! 0 ! 0 = IndexEntry 0
   \<and> getArrayData exampleSliceServices ''low'' ! 0 ! Suc 0 = ValueEntry (Some (JNum 2))
   \<and> getArrayData exampleSliceServices ''low'' ! 0 ! Suc (Suc 0) = ValueEntry None"
proof -
  let ?E = "exampleSliceServices"
  have rows: "getSliceDataByName ?E ''low'' = [exampleRowA]"
    by (simp add: exampleSliceServices_def)
  have keys: "currentInputDataKeys ?E = [''score'', ''label'']"
    by (simp add: exampleSliceServices_def)
  have row: "id' exampleRowA = ''a''" "data exampleRowA ''score'' = Some (JNum 2)"
    "data exampleRowA ''label'' = None"
    by (simp_all add: exampleRowA_def)
  have idx: "getIndexById ?E ''a'' = 0"
    by (simp add: exampleSliceServices_def)
  from getArrayData_rows [of ?E "''low''"]
  have len: "length (getArrayData ?E ''low'') = length (getSliceDataByName ?E ''low'')"
    and all: "\<forall>i < length (getSliceDataByName ?E ''low'').
        length (getArrayData ?E ''low'' ! i) = Suc (length (currentInputDataKeys ?E))
        \<and> getArrayData ?E ''low'' ! i ! 0 = IndexEntry (getIndexById ?E (id' (getSliceDataByName ?E ''low'' ! i)))
        \<and> (\<forall>j < length (currentInputDataKeys ?E).
             getArrayData ?E ''low'' ! i ! Suc j =
               ValueEntry (data (getSliceDataByName ?E ''low'' ! i) (currentInputDataKeys ?E ! j)))"
    by blast+
  have "(0::nat) < length (getSliceDataByName ?E ''low'')" by (simp add: rows)
  with all have first: "length (getArrayData ?E ''low'' ! 0) = Suc (length (currentInputDataKeys ?E))"
    "getArrayData ?E ''low'' ! 0 ! 0 = IndexEntry (getIndexById ?E (id' (getSliceDataByName ?E ''low'' ! 0)))"
    "\<forall>j < length (currentInputDataKeys ?E).
       getArrayData ?E ''low'' ! 0 ! Suc j =
         ValueEntry (data (getSliceDataByName ?E ''low'' ! 0) (currentInputDataKeys ?E ! j))"
    by blast+
  have j0: "(0::nat) < length (currentInputDataKeys ?E)" and j1: "Suc 0 < length (currentInputDataKeys ?E)"
    by (simp_all add: keys)
  from first(3) j0 have c0: "getArrayData ?E ''low'' ! 0 ! Suc 0 =
      ValueEntry (data (getSliceDataByName ?E ''low'' ! 0) (currentInputDataKeys ?E ! 0))"
    by blast
  from first(3) j1 have c1: "getArrayData ?E ''low'' ! 0 ! Suc (Suc 0) =
      ValueEntry (data (getSliceDataByName ?E ''low'' ! 0) (currentInputDataKeys ?E ! Suc 0))"
    by blast
  from len have "length (getArrayData ?E ''low'') = 1" by (simp add: rows)
  moreover from first(1) have "length (getArrayData ?E ''low'' ! 0) = 3" by (simp add: keys)
  moreover from first(2) have "getArrayData ?E ''low'' ! 0 ! 0 = IndexEntry 0"
    by (simp add: rows row idx)
  moreover from c0 have "getArrayData ?E ''low'' ! 0 ! Suc 0 = ValueEntry (Some (JNum 2))"
    by (simp add: rows keys row)
  moreover from c1 have "getArrayData ?E ''low'' ! 0 ! Suc (Suc 0) = ValueEntry None"
    by (simp add: rows keys row)
  ultimately show ?thesis by (intro conjI)
qed

end
